theory Spec2Isabelle
  imports Complex_Main
begin

section \<open>JavaScript values\<close>

text \<open>
  The values that the modelled code computes with. A number is \<open>JNum r\<close> for a finite
  value, \<open>JNaN\<close> or \<open>JInfinity\<close>; finite doubles are read as the reals they denote.
  \<open>JUndefined\<close> is an absent field or an out-of-range read, \<open>JNull\<close> is \<open>null\<close>.
\<close>

datatype jsval = JUndefined | JNull | JNaN | JInfinity | JNum real

text \<open>Truthiness, as \<open>!x\<close>, \<open>x || y\<close> and \<open>if (x)\<close> test it.\<close>

fun truthy :: "jsval \<Rightarrow> bool" where
  "truthy (JNum r) = (r \<noteq> 0)"
| "truthy JInfinity = True"
| "truthy _ = False"

text \<open>A string is truthy when it is present and not empty; \<open>None\<close> is \<open>undefined\<close> or \<open>null\<close>.\<close>

fun truthyStr :: "string option \<Rightarrow> bool" where
  "truthyStr None = False"
| "truthyStr (Some s) = (s \<noteq> [])"

text \<open>\<open>a || b\<close>: the first operand when it is truthy, else the second.\<close>

definition jsOr :: "jsval \<Rightarrow> jsval \<Rightarrow> jsval" where
  "jsOr a b = (if truthy a then a else b)"

text \<open>\<open>x > t\<close> and \<open>x >= t\<close> against a finite number \<open>t\<close>, after \<open>ToNumber\<close>:
  \<open>undefined\<close> becomes NaN (every comparison false), \<open>null\<close> becomes 0.\<close>

fun jsGt :: "jsval \<Rightarrow> real \<Rightarrow> bool" where
  "jsGt (JNum r) t = (r > t)"
| "jsGt JInfinity t = True"
| "jsGt JNull t = (0 > t)"
| "jsGt _ t = False"

fun jsGe :: "jsval \<Rightarrow> real \<Rightarrow> bool" where
  "jsGe (JNum r) t = (r \<ge> t)"
| "jsGe JInfinity t = True"
| "jsGe JNull t = (0 \<ge> t)"
| "jsGe _ t = False"

text \<open>
  \<open>m / n\<close> for two non-negative integers: \<open>0 / 0\<close> is NaN and \<open>m / 0\<close> is
  Infinity. The quotient is the exact rational number. The double that the program
  computes is its rounding, and for \<open>n\<close> below \<open>2^49\<close> the two lie on the same side
  of the literal \<open>0.7\<close>, since \<open>m / n\<close> differs from \<open>7/10\<close> by at least \<open>1 / (10 n)\<close>
  unless it equals it.
\<close>

definition jsDiv :: "nat \<Rightarrow> nat \<Rightarrow> jsval" where
  "jsDiv m n = (if n = 0 then (if m = 0 then JNaN else JInfinity) else JNum (real m / real n))"

section \<open>The fallback matcher's string similarity\<close>

text \<open>
  \<open>calculateStringSimilarity\<close> of LecturerCourses.js. The counting loop reads
  \<open>shorter[i]\<close> and \<open>longer[i]\<close>; a read past the end of a string is \<open>undefined\<close>,
  which equals no character.
\<close>

function countMatches :: "string \<Rightarrow> string \<Rightarrow> nat \<Rightarrow> nat \<Rightarrow> nat" where
  "countMatches shorter longer i matches =
     (if i < length shorter
      then countMatches shorter longer (i + 1)
             (if i < length longer \<and> shorter ! i = longer ! i then matches + 1 else matches)
      else matches)"
  by pat_completeness auto
termination
  by (relation "measure (\<lambda>(shorter, longer, i, matches). length shorter - i)") auto

declare countMatches.simps [simp del]

definition calculateStringSimilarity :: "string option \<Rightarrow> string option \<Rightarrow> jsval" where
  "calculateStringSimilarity str1 str2 =
     (if \<not> truthyStr str1 \<or> \<not> truthyStr str2 then JNum 0
      else if str1 = str2 then JNum 1
      else (case (str1, str2) of
              (Some s1, Some s2) \<Rightarrow>
                let longer = (if length s1 > length s2 then s1 else s2);
                    shorter = (if length s1 > length s2 then s2 else s1);
                    matches = countMatches shorter longer 0 0
                in jsDiv matches (length longer)
            | _ \<Rightarrow> JNum 0))"

section \<open>The fallback matcher\<close>

text \<open>
  \<open>text.split(/(?<=[.!?])\s+/)\<close>: the text is cut at every run of whitespace that
  directly follows a terminal punctuation mark; the run is dropped and the mark stays
  with the unit before it. The piece after the last cut is always emitted, also when
  it is empty. Characters are 8-bit code units here, so \<open>\s\<close> is TAB, LF, VT, FF,
  CR, space and the no-break space.
\<close>

definition isSpace :: "char \<Rightarrow> bool" where
  "isSpace c = (c \<in> set [CHR 0x09, CHR 0x0A, CHR 0x0B, CHR 0x0C, CHR 0x0D, CHR 0x20, CHR 0xA0])"

definition isTerminal :: "char \<Rightarrow> bool" where
  "isTerminal c = (c \<in> set ''.!?'')"

function splitUnits :: "string \<Rightarrow> string \<Rightarrow> string list" where
  "splitUnits cur [] = [rev cur]"
| "splitUnits cur (c # cs) =
     (if isTerminal c \<and> (case cs of [] \<Rightarrow> False | d # _ \<Rightarrow> isSpace d)
      then rev (c # cur) # splitUnits [] (dropWhile isSpace cs)
      else splitUnits (c # cur) cs)"
  by pat_completeness auto
termination
  by (relation "measure (\<lambda>(cur, s). length s)")
     (auto simp: le_imp_less_Suc length_dropWhile_le)

definition splitSentences :: "string \<Rightarrow> string list" where
  "splitSentences t = splitUnits [] t"

text \<open>\<open>x * t\<close> for a positive finite \<open>t\<close>, and \<open>Math.round\<close> (ties go up).\<close>

fun jsTimes :: "jsval \<Rightarrow> real \<Rightarrow> jsval" where
  "jsTimes (JNum r) t = JNum (r * t)"
| "jsTimes JInfinity t = JInfinity"
| "jsTimes JNull t = JNum 0"
| "jsTimes _ t = JNaN"

fun mathRound :: "jsval \<Rightarrow> jsval" where
  "mathRound (JNum r) = JNum (of_int \<lfloor>r + 1 / 2\<rfloor>)"
| "mathRound JInfinity = JInfinity"
| "mathRound JNull = JNum 0"
| "mathRound _ = JNaN"

text \<open>An entry of \<open>similarSegments\<close>; its \<open>similarity\<close> field is \<open>segSimilarity\<close> here.\<close>

record similarSegment =
  text1 :: string
  text2 :: string
  text1Index :: nat
  text2Index :: nat
  segSimilarity :: jsval

text \<open>A rendered segment \<open>{text, isMatch, percentage}\<close>; its \<open>text\<close> field is \<open>segText\<close> here.\<close>

record textSegment =
  segText :: string
  isMatch :: bool
  percentage :: jsval

record similarTexts =
  text1Segments :: "textSegment list"
  text2Segments :: "textSegment list"

text \<open>The two nested \<open>forEach\<close> loops that fill \<open>similarSegments\<close>, in push order.\<close>

definition similarSegments :: "string list \<Rightarrow> string list \<Rightarrow> similarSegment list" where
  "similarSegments segments1 segments2 =
     concat (map (\<lambda>(i, seg1).
       concat (map (\<lambda>(j, seg2).
         let sim = calculateStringSimilarity (Some seg1) (Some seg2)
         in if jsGt sim 0.7
            then [\<lparr>text1 = seg1, text2 = seg2, text1Index = i, text2Index = j,
                   segSimilarity = mathRound (jsTimes sim 100)\<rparr>]
            else [])
         (enumerate 0 segments2)))
       (enumerate 0 segments1))"

text \<open>
  \<open>processAndHighlightContent\<close>: the value handed to \<open>setSimilarTexts\<close>.
  \<open>Array.prototype.sort\<close> with a numeric comparator is a stable sort by that key.
\<close>

definition processAndHighlightContent :: "string \<Rightarrow> string \<Rightarrow> jsval \<Rightarrow> similarTexts" where
  "processAndHighlightContent t1 t2 similarityScore =
     (let segments1 = splitSentences t1;
          segments2 = splitSentences t2;
          sims = similarSegments segments1 segments2;
          segs1 = (if length sims > 0
                   then map (\<lambda>m. \<lparr>segText = text1 m, isMatch = True, percentage = segSimilarity m\<rparr>)
                          (sort_key text1Index sims)
                   else []);
          segs2 = (if length sims > 0
                   then map (\<lambda>m. \<lparr>segText = text2 m, isMatch = True, percentage = segSimilarity m\<rparr>)
                          (sort_key text2Index sims)
                   else [])
      in if length segs1 = 0 \<and> length segs2 = 0 \<and> jsGt similarityScore 0
         then \<lparr>text1Segments = segs1 @ [\<lparr>segText = t1, isMatch = True, percentage = similarityScore\<rparr>],
               text2Segments = segs2 @ [\<lparr>segText = t2, isMatch = True, percentage = similarityScore\<rparr>]\<rparr>
         else \<lparr>text1Segments = segs1, text2Segments = segs2\<rparr>)"

section \<open>The threshold filter of the results table\<close>

text \<open>
  A row of the results table. The filter reads three score fields; every other field of
  a row lives in the record's extension.
\<close>

record comparisonResult =
  web_similarity_score :: jsval
  similarity_score :: jsval
  similarity :: jsval

text \<open>
  \<open>filterResults\<close>, with the \<open>threshold\<close> state as a parameter. \<open>None\<close> is a
  \<open>results\<close> value that is \<open>null\<close> or \<open>undefined\<close>; an array is always truthy.
\<close>

definition filterResults ::
    "real \<Rightarrow> ('a comparisonResult_scheme) list option \<Rightarrow> ('a comparisonResult_scheme) list" where
  "filterResults threshold results =
     (case results of
        None \<Rightarrow> []
      | Some rs \<Rightarrow>
          filter (\<lambda>result.
            let similarityScore =
                  jsOr (jsOr (jsOr (web_similarity_score result) (similarity_score result))
                             (similarity result))
                       (JNum 0)
            in jsGe similarityScore threshold) rs)"

text \<open>
  The two readings of the score a row is filtered by. \<open>maxScore\<close> follows the claim's
  words: the largest of the three fields and 0, a field that is not a number being left
  out. \<open>firstMatchScore\<close> is first-match-wins: the first of the three fields, in the
  order above, that is truthy, and 0 when none is.
\<close>

fun numberOf :: "jsval \<Rightarrow> real option" where
  "numberOf (JNum r) = Some r"
| "numberOf _ = None"

definition maxScore :: "'a comparisonResult_scheme \<Rightarrow> real" where
  "maxScore r =
     foldr max (List.map_filter numberOf
       [web_similarity_score r, similarity_score r, similarity r]) 0"

definition firstMatchScore :: "'a comparisonResult_scheme \<Rightarrow> jsval" where
  "firstMatchScore r =
     (case filter truthy [web_similarity_score r, similarity_score r, similarity r] of
        [] \<Rightarrow> JNum 0
      | v # _ \<Rightarrow> v)"

section \<open>Reading numbers from text\<close>

definition isDigit :: "char \<Rightarrow> bool" where
  "isDigit c = (c \<in> set ''0123456789'')"

text \<open>The value of a digit character in a radix up to 36.\<close>

definition digitValue :: "char \<Rightarrow> nat option" where
  "digitValue c =
     (let n = (of_char c :: nat)
      in if 48 \<le> n \<and> n \<le> 57 then Some (n - 48)
         else if 97 \<le> n \<and> n \<le> 122 then Some (n - 87)
         else if 65 \<le> n \<and> n \<le> 90 then Some (n - 55)
         else None)"

definition isRadixDigit :: "nat \<Rightarrow> char \<Rightarrow> bool" where
  "isRadixDigit R c = (case digitValue c of None \<Rightarrow> False | Some v \<Rightarrow> v < R)"

definition radixValue :: "nat \<Rightarrow> string \<Rightarrow> nat" where
  "radixValue R ds =
     foldl (\<lambda>acc c. case digitValue c of None \<Rightarrow> acc | Some v \<Rightarrow> acc * R + v) 0 ds"

text \<open>
  \<open>parseInt(s)\<close> without a radix argument: leading whitespace is skipped, a sign is
  read, a \<open>0x\<close> or \<open>0X\<close> prefix selects radix 16, and the longest run of digits that
  follows is the value; whatever comes after it is ignored. \<open>None\<close> is NaN (no digit
  was found). The value is the exact integer.
\<close>

definition parseInt :: "string \<Rightarrow> int option" where
  "parseInt s =
     (let S = dropWhile isSpace s;
          (sign, S1) = (case S of
                          c # r \<Rightarrow> if c = CHR ''-'' then (- 1 :: int, r)
                                   else if c = CHR ''+'' then (1, r) else (1, S)
                        | [] \<Rightarrow> (1, S));
          (R, S2) = (if take 2 S1 = ''0x'' \<or> take 2 S1 = ''0X'' then (16 :: nat, drop 2 S1)
                     else (10, S1));
          Z = takeWhile (isRadixDigit R) S2
      in if Z = [] then None else Some (sign * int (radixValue R Z)))"

text \<open>
  \<open>parseFloat(s)\<close> on a string that, after whitespace and a sign, starts with a
  decimal literal \<open>digits\<close>, \<open>digits.digits\<close> or \<open>.digits\<close>: the value is the exact
  decimal number, and a string with no such start is NaN. An exponent suffix and the
  literal \<open>Infinity\<close> are not read.
\<close>

definition parseFloat :: "string \<Rightarrow> jsval" where
  "parseFloat s =
     (let S = dropWhile isSpace s;
          (sign, S1) = (case S of
                          c # r \<Rightarrow> if c = CHR ''-'' then (- 1 :: real, r)
                                   else if c = CHR ''+'' then (1, r) else (1, S)
                        | [] \<Rightarrow> (1, S));
          whole = takeWhile isDigit S1;
          S2 = dropWhile isDigit S1;
          frac = (case S2 of c # r \<Rightarrow> if c = CHR ''.'' then takeWhile isDigit r else [] | [] \<Rightarrow> [])
      in if whole = [] \<and> frac = [] then JNaN
         else JNum (sign * (real (radixValue 10 whole)
                            + real (radixValue 10 frac) / 10 ^ length frac)))"

section \<open>Grading a submission (lecturer view)\<close>

text \<open>The network requests the views issue, in the order they are sent.\<close>

datatype request =
    PostGrade nat int string
  | PostWebSimilarity jsval
  | PostSubmitAssignment string string string "string option"
  | DeleteSubmission jsval
  | DeleteWebReport string

record network =
  requests :: "request list"

text \<open>
  A submission of the list, with the fields that grading touches; its \<open>id\<close> field is
  \<open>subId\<close> here and the remaining fields live in the record's extension.
\<close>

record submission =
  subId :: nat
  grade :: jsval
  feedback :: "string option"
  status :: string

text \<open>The lecturer view: the list state, the alerts shown so far and the requests sent.\<close>

record 'a lecturerView = network +
  submissions :: "('a submission_scheme) list"
  alerts :: "string list"

text \<open>
  \<open>handleGradeSubmission\<close>. \<open>postOk\<close> tells whether the POST resolves; when it
  rejects the handler alerts and leaves the list alone.
\<close>

definition handleGradeSubmission ::
    "bool \<Rightarrow> nat \<Rightarrow> int \<Rightarrow> string \<Rightarrow> 'a lecturerView \<Rightarrow> 'a lecturerView" where
  "handleGradeSubmission postOk submissionId numericGrade fb v =
     (let v1 = v\<lparr>requests := requests v @ [PostGrade submissionId numericGrade fb]\<rparr>
      in if postOk
         then v1\<lparr>submissions :=
                map (\<lambda>sub. if subId sub = submissionId
                            then sub\<lparr>grade := JNum (of_int numericGrade),
                                     feedback := Some fb, status := ''graded''\<rparr>
                            else sub)
                    (submissions v)\<rparr>
         else v1\<lparr>alerts := alerts v1 @ [''Failed to grade submission. Please try again.'']\<rparr>)"

text \<open>
  The click handler of the Grade button. The two \<open>prompt\<close> answers are parameters;
  \<open>None\<close> is a cancelled prompt.
\<close>

definition gradeButtonClick ::
    "string option \<Rightarrow> string option \<Rightarrow> bool \<Rightarrow> 'a submission_scheme
       \<Rightarrow> 'a lecturerView \<Rightarrow> 'a lecturerView" where
  "gradeButtonClick gradeAnswer feedbackAnswer postOk sub v =
     (case gradeAnswer of
        None \<Rightarrow> v
      | Some g \<Rightarrow>
         (case feedbackAnswer of
            None \<Rightarrow> v
          | Some fb \<Rightarrow>
             (case parseInt g of
                None \<Rightarrow> v\<lparr>alerts := alerts v @ [''Please enter a valid grade between 0 and 100'']\<rparr>
              | Some numericGrade \<Rightarrow>
                  if numericGrade < 0 \<or> numericGrade > 100
                  then v\<lparr>alerts := alerts v @ [''Please enter a valid grade between 0 and 100'']\<rparr>
                  else handleGradeSubmission postOk (subId sub) numericGrade fb v)))"

text \<open>
  What "rejected client-side" means: the validation message was shown and no request
  was sent.
\<close>

definition rejectedClientSide :: "'a lecturerView \<Rightarrow> 'a lecturerView \<Rightarrow> bool" where
  "rejectedClientSide v v' \<longleftrightarrow>
     alerts v' = alerts v @ [''Please enter a valid grade between 0 and 100'']
     \<and> requests v' = requests v"

section \<open>The student submission view\<close>

text \<open>
  An awaited request either rejects, with the message of \<open>err.response?.data?.message\<close>
  when there is one, or resolves with the response body.
\<close>

datatype 'r outcome = Rejects "string option" | Responds 'r

text \<open>\<open>m || fallback\<close> for an optional message.\<close>

definition orElse :: "string option \<Rightarrow> string \<Rightarrow> string" where
  "orElse m fallback = (case m of None \<Rightarrow> fallback | Some s \<Rightarrow> if s = [] then fallback else s)"

text \<open>
  The submission record the backend returns and the view caches; the web-similarity
  check adds the last three fields (\<open>web_similarity_score\<close>, \<open>report_url\<close>,
  \<open>report_filename\<close>).
\<close>

record submissionRecord =
  submission_id :: jsval
  student_name :: "string option"
  file_name :: "string option"
  submitted_at :: "string option"
  sd_web_similarity_score :: jsval
  sd_report_url :: "string option"
  sd_report_filename :: "string option"

text \<open>The body of a web-similarity response (\<open>response.data\<close>).\<close>

record webSimilarityData =
  ws_status :: string
  ws_web_similarity_score :: jsval
  ws_similarity_score :: jsval
  ws_analysis_summary :: "string option"
  ws_report_url :: "string option"
  ws_message :: "string option"

text \<open>The bodies of a submit response and of a delete response.\<close>

record submitData =
  sb_status :: string
  sb_data :: "submissionRecord option"
  sb_message :: "string option"

record deleteData =
  del_status :: string
  del_message :: "string option"

text \<open>
  A value in local storage: a plain string, or the JSON text of a submission record,
  kept as the record it encodes.
\<close>

datatype stored = StoredText string | StoredData submissionRecord

text \<open>
  The component state of \<open>AssignmentDetail\<close>, with local storage and the requests
  sent. The \<open>file\<close> state is \<open>selectedFile\<close> here, holding the file's name.
\<close>

record assignmentDetail = network +
  userId :: "string option"
  name :: string
  selectedFile :: "string option"
  submitted :: bool
  loading :: bool
  checkingWebSimilarity :: bool
  error :: string
  openDialog :: bool
  snackbarOpen :: bool
  similarityScore :: jsval
  submissionData :: "submissionRecord option"
  reportUrl :: "string option"
  reportFilename :: "string option"
  localStorage :: "string \<rightharpoonup> stored"

definition statusKey :: "string \<Rightarrow> string" where
  "statusKey aid = ''assignment_'' @ aid @ ''_status''"

definition dataKey :: "string \<Rightarrow> string" where
  "dataKey aid = ''assignment_'' @ aid @ ''_data''"

subsection \<open>The web-similarity check\<close>

text \<open>
  The regular expression \<open>/Calculated similarity: (\d+\.\d+)%/\<close>. \<open>matchAt\<close> tries
  it at the start of a string and returns the captured group; both digit runs are
  greedy, and since the character required after each run is not a digit, the longest
  run is the only one that can match. \<open>matchPattern\<close> is \<open>String.prototype.match\<close>:
  the leftmost position at which the expression matches.
\<close>

fun stripPrefix :: "string \<Rightarrow> string \<Rightarrow> string option" where
  "stripPrefix [] s = Some s"
| "stripPrefix (p # ps) [] = None"
| "stripPrefix (p # ps) (c # cs) = (if p = c then stripPrefix ps cs else None)"

definition matchAt :: "string \<Rightarrow> string option" where
  "matchAt s =
     (case stripPrefix ''Calculated similarity: '' s of
        None \<Rightarrow> None
      | Some r \<Rightarrow>
          let whole = takeWhile isDigit r; r1 = dropWhile isDigit r
          in if whole = [] then None
             else (case r1 of
                     [] \<Rightarrow> None
                   | c # r2 \<Rightarrow>
                       if c \<noteq> CHR ''.'' then None
                       else let frac = takeWhile isDigit r2; r3 = dropWhile isDigit r2
                            in if frac = [] then None
                               else (case r3 of
                                       [] \<Rightarrow> None
                                     | c' # _ \<Rightarrow>
                                         if c' = CHR ''%'' then Some (whole @ ''.'' @ frac)
                                         else None)))"

fun matchPattern :: "string \<Rightarrow> string option" where
  "matchPattern [] = matchAt []"
| "matchPattern (c # cs) =
     (case matchAt (c # cs) of Some g \<Rightarrow> Some g | None \<Rightarrow> matchPattern cs)"

text \<open>\<open>isNaN(x)\<close>: true exactly when \<open>ToNumber\<close> gives NaN.\<close>

fun isNaN :: "jsval \<Rightarrow> bool" where
  "isNaN JNaN = True"
| "isNaN JUndefined = True"
| "isNaN _ = False"

text \<open>
  The score the handler resolves from a success response: the local variable
  \<open>score\<close>, which starts as \<open>null\<close>.
\<close>

definition resolveScore :: "webSimilarityData \<Rightarrow> jsval" where
  "resolveScore d =
     (if ws_web_similarity_score d \<noteq> JUndefined then ws_web_similarity_score d
      else if ws_similarity_score d \<noteq> JUndefined then ws_similarity_score d
      else (case ws_analysis_summary d of
              None \<Rightarrow> JNull
            | Some summary \<Rightarrow>
                if summary = [] then JNull
                else (case matchPattern summary of
                        None \<Rightarrow> JNull
                      | Some g \<Rightarrow> if g \<noteq> [] then parseFloat g else JNull)))"

text \<open>\<open>url.split('/').pop()\<close>: what follows the last slash.\<close>

definition lastPathPart :: "string \<Rightarrow> string" where
  "lastPathPart url = rev (takeWhile (\<lambda>c. c \<noteq> CHR ''/'') (rev url))"

definition handleCheckWebSimilarity ::
    "string \<Rightarrow> webSimilarityData outcome \<Rightarrow> assignmentDetail \<Rightarrow> assignmentDetail" where
  "handleCheckWebSimilarity aid response st =
     (if \<not> submitted st
      then st\<lparr>error := ''Please submit your assignment first before checking web similarity.''\<rparr>
      else if (case submissionData st of None \<Rightarrow> True | Some sd \<Rightarrow> \<not> truthy (submission_id sd))
      then st\<lparr>error := ''Submission data is incomplete. Please try submitting again.''\<rparr>
      else if similarityScore st \<noteq> JNull \<and> truthyStr (reportUrl st)
      then st\<lparr>snackbarOpen := True\<rparr>
      else
        let sid = (case submissionData st of None \<Rightarrow> JUndefined | Some sd \<Rightarrow> submission_id sd);
            st1 = st\<lparr>checkingWebSimilarity := True, error := [],
                     requests := requests st @ [PostWebSimilarity sid]\<rparr>;
            st2 =
              (case response of
                 Rejects m \<Rightarrow>
                   st1\<lparr>error := orElse m ''Failed to check web similarity. Please try again.''\<rparr>
               | Responds d \<Rightarrow>
                   if ws_status d = ''success''
                   then
                     let score = resolveScore d;
                         st3 =
                           (if score \<noteq> JNull
                            then (if \<not> isNaN score
                                  then (case submissionData st of
                                          None \<Rightarrow> st1\<lparr>similarityScore := score, snackbarOpen := True\<rparr>
                                        | Some sd \<Rightarrow>
                                            let updatedData = sd\<lparr>
                                                  sd_web_similarity_score := score,
                                                  sd_report_url :=
                                                    (if truthyStr (ws_report_url d)
                                                     then ws_report_url d else None),
                                                  sd_report_filename :=
                                                    (if truthyStr (ws_report_url d)
                                                     then map_option lastPathPart (ws_report_url d)
                                                     else None)\<rparr>
                                            in st1\<lparr>similarityScore := score, snackbarOpen := True,
                                                    localStorage := (localStorage st1)
                                                      (dataKey aid \<mapsto> StoredData updatedData),
                                                    submissionData := Some updatedData\<rparr>)
                                  else st1)
                            else st1\<lparr>error := ''Could not determine similarity score from the response''\<rparr>)
                     in (case ws_report_url d of
                           None \<Rightarrow> st3
                         | Some url \<Rightarrow>
                             if url = [] then st3
                             else st3\<lparr>reportUrl := Some (''http://127.0.0.1:8000'' @ url),
                                      reportFilename := Some (lastPathPart url)\<rparr>)
                   else
                     st1\<lparr>error := orElse (ws_message d)
                                   ''An error occurred during web similarity check.''\<rparr>)
        in st2\<lparr>checkingWebSimilarity := False\<rparr>)"

subsection \<open>Submitting\<close>

definition handleSubmit ::
    "string \<Rightarrow> submitData outcome \<Rightarrow> assignmentDetail \<Rightarrow> assignmentDetail" where
  "handleSubmit aid response st =
     (if name st = [] then st\<lparr>error := ''Please enter your name.''\<rparr>
      else (case selectedFile st of
              None \<Rightarrow> st\<lparr>error := ''Please upload a file before submitting.''\<rparr>
            | Some f \<Rightarrow>
                let st1 = st\<lparr>loading := True, error := [],
                             requests := requests st @
                               [PostSubmitAssignment aid (name st) f
                                  (if truthyStr (userId st) then userId st else None)]\<rparr>;
                    st2 =
                      (case response of
                         Rejects m \<Rightarrow>
                           st1\<lparr>error := orElse m
                             ''An error occurred while submitting your assignment. Please try again.''\<rparr>
                       | Responds d \<Rightarrow>
                           if sb_status d = ''success''
                           then
                             let st3 = st1\<lparr>localStorage := (localStorage st1)
                                             (statusKey aid \<mapsto> StoredText ''submitted'')\<rparr>;
                                 st4 = (case sb_data d of
                                          None \<Rightarrow> st3
                                        | Some sd \<Rightarrow>
                                            st3\<lparr>localStorage := (localStorage st3)
                                                   (dataKey aid \<mapsto> StoredData sd),
                                                 submissionData := Some sd,
                                                 similarityScore := JNull\<rparr>)
                             in st4\<lparr>submitted := True, snackbarOpen := True\<rparr>
                           else
                             st1\<lparr>error := orElse (sb_message d)
                                           ''An error occurred during submission.''\<rparr>)
                in st2\<lparr>loading := False\<rparr>))"

subsection \<open>Removing a submission\<close>

text \<open>The block of removals and setters that \<open>handleRemove\<close> repeats in three places.\<close>

definition clearLocal :: "string \<Rightarrow> assignmentDetail \<Rightarrow> assignmentDetail" where
  "clearLocal aid st =
     st\<lparr>localStorage := (localStorage st)(statusKey aid := None, dataKey aid := None),
        submitted := False, submissionData := None, similarityScore := JNull,
        reportUrl := None, reportFilename := None, selectedFile := None, name := []\<rparr>"

text \<open>
  \<open>handleRemove\<close>. \<open>response\<close> is the outcome of deleting the submission and
  \<open>reportDeleted\<close> that of deleting the report, whose failure is only logged.
\<close>

definition handleRemove ::
    "string \<Rightarrow> deleteData outcome \<Rightarrow> bool \<Rightarrow> assignmentDetail \<Rightarrow> assignmentDetail" where
  "handleRemove aid response reportDeleted st =
     (let st0 = st\<lparr>openDialog := False\<rparr>
      in if (case submissionData st of None \<Rightarrow> False | Some sd \<Rightarrow> truthy (submission_id sd))
         then
           let sid = (case submissionData st of None \<Rightarrow> JUndefined | Some sd \<Rightarrow> submission_id sd);
               st1 = st0\<lparr>loading := True, error := [],
                         requests := requests st0 @ [DeleteSubmission sid]\<rparr>;
               st2 =
                 (case response of
                    Responds d \<Rightarrow>
                      if del_status d = ''success''
                      then
                        let st3 = (if truthyStr (reportFilename st)
                                   then st1\<lparr>requests := requests st1 @
                                          [DeleteWebReport (case reportFilename st of
                                                              None \<Rightarrow> [] | Some fn \<Rightarrow> fn)]\<rparr>
                                   else st1)
                        in (clearLocal aid st3)\<lparr>snackbarOpen := True\<rparr>
                      else
                        st1\<lparr>error := orElse (del_message d)
                                      ''Failed to remove submission. Please try again.''\<rparr>
                  | Rejects m \<Rightarrow>
                      clearLocal aid
                        (st1\<lparr>error := orElse m
                           ''An error occurred while removing your submission. Please try again.''\<rparr>))
           in st2\<lparr>loading := False\<rparr>
         else clearLocal aid st0)"

section \<open>A sample view\<close>

text \<open>
  The view of assignment \<open>7\<close> after Alice submitted \<open>essay.txt\<close> and the backend
  returned submission id 55; the concrete checks below start from it.
\<close>

definition sampleRecord :: submissionRecord where
  "sampleRecord = \<lparr>submission_id = JNum 55, student_name = Some ''Alice'',
     file_name = Some ''essay.txt'', submitted_at = None,
     sd_web_similarity_score = JUndefined, sd_report_url = None, sd_report_filename = None\<rparr>"

definition sampleView :: assignmentDetail where
  "sampleView = \<lparr>requests = [], userId = None, name = ''Alice'', selectedFile = None,
     submitted = True, loading = False, checkingWebSimilarity = False, error = [],
     openDialog = False, snackbarOpen = False, similarityScore = JNull,
     submissionData = Some sampleRecord, reportUrl = None, reportFilename = None,
     localStorage = [statusKey ''7'' \<mapsto> StoredText ''submitted'',
                     dataKey ''7'' \<mapsto> StoredData sampleRecord]\<rparr>"

section \<open>Properties of the string similarity\<close>

lemma countMatches_eq:
  "countMatches shorter longer i m =
     m + card {k. i \<le> k \<and> k < length shorter \<and> k < length longer \<and> shorter ! k = longer ! k}"
proof (induction shorter longer i m rule: countMatches.induct)
  case (1 shorter longer i matches)
  let ?P = "\<lambda>k. k < length shorter \<and> k < length longer \<and> shorter ! k = longer ! k"
  show ?case
  proof (cases "i < length shorter")
    case False
    then have "{k. i \<le> k \<and> ?P k} = {}" by auto
    with False show ?thesis by (simp add: countMatches.simps [of shorter longer i])
  next
    case True
    have fin: "finite {k. Suc i \<le> k \<and> ?P k}" by simp
    have split: "{k. i \<le> k \<and> ?P k} = (if ?P i then {i} else {}) \<union> {k. Suc i \<le> k \<and> ?P k}"
      by (auto simp: Suc_le_eq le_less)
    have "card {k. i \<le> k \<and> ?P k} = (if ?P i then 1 else 0) + card {k. Suc i \<le> k \<and> ?P k}"
      by (subst split) (use fin in auto)
    with True 1 show ?thesis
      by (simp add: countMatches.simps [of shorter longer i])
  qed
qed

lemma countMatches_le: "countMatches shorter longer 0 0 \<le> length shorter"
proof -
  have "{k. k < length shorter \<and> k < length longer \<and> shorter ! k = longer ! k} \<subseteq> {..<length shorter}"
    by auto
  then have "card {k. k < length shorter \<and> k < length longer \<and> shorter ! k = longer ! k}
      \<le> card {..<length shorter}"
    by (rule card_mono [rotated]) simp
  then show ?thesis by (simp add: countMatches_eq)
qed

text \<open>
  C9. The string similarity always returns a finite number between 0 and 1: the division
  is reached only with a non-empty longer string, so it never yields NaN or Infinity;
  an empty or absent argument gives 0, also when both strings are empty.
\<close>

theorem calculateStringSimilarity_total_bounded:
  "(\<exists>r. calculateStringSimilarity str1 str2 = JNum r \<and> 0 \<le> r \<and> r \<le> 1)
   \<and> calculateStringSimilarity None str2 = JNum 0
   \<and> calculateStringSimilarity str1 None = JNum 0
   \<and> calculateStringSimilarity (Some []) str2 = JNum 0
   \<and> calculateStringSimilarity str1 (Some []) = JNum 0
   \<and> calculateStringSimilarity (Some []) (Some []) = JNum 0"
proof -
  have bounded: "\<exists>r. calculateStringSimilarity str1 str2 = JNum r \<and> 0 \<le> r \<and> r \<le> 1"
  proof (cases "\<not> truthyStr str1 \<or> \<not> truthyStr str2")
    case True
    then show ?thesis by (simp add: calculateStringSimilarity_def)
  next
    case False
    then obtain s1 s2 where s: "str1 = Some s1" "str2 = Some s2" "s1 \<noteq> []" "s2 \<noteq> []"
      by (cases str1; cases str2) auto
    show ?thesis
    proof (cases "s1 = s2")
      case True
      with s show ?thesis by (simp add: calculateStringSimilarity_def)
    next
      case False
      define longer where "longer = (if length s1 > length s2 then s1 else s2)"
      define shorter where "shorter = (if length s1 > length s2 then s2 else s1)"
      have len: "length shorter \<le> length longer" "0 < length longer"
        using s by (auto simp: longer_def shorter_def)
      have "countMatches shorter longer 0 0 \<le> length longer"
        using countMatches_le [of shorter longer] len by linarith
      then have "real (countMatches shorter longer 0 0) / real (length longer) \<le> 1"
        using len by simp
      moreover have "calculateStringSimilarity str1 str2
          = JNum (real (countMatches shorter longer 0 0) / real (length longer))"
        using s False len
        by (simp add: calculateStringSimilarity_def jsDiv_def Let_def longer_def shorter_def)
      ultimately show ?thesis by simp
    qed
  qed
  show ?thesis
    using bounded by (simp add: calculateStringSimilarity_def)
qed

text \<open>C9 at the strings \<open>ab\<close> and \<open>ax\<close>, and at two empty strings.\<close>

theorem calculateStringSimilarity_total_bounded_witness:
  "(\<exists>r. calculateStringSimilarity (Some ''ab'') (Some ''ax'') = JNum r \<and> 0 \<le> r \<and> r \<le> 1)
   \<and> calculateStringSimilarity (Some []) (Some []) = JNum 0"
  using calculateStringSimilarity_total_bounded [of "Some ''ab''" "Some ''ax''"] by blast

section \<open>Properties of the fallback matcher\<close>

lemma similarity_formula:
  assumes "a \<noteq> [] \<or> b \<noteq> []"
  shows "calculateStringSimilarity (Some a) (Some b) =
     JNum (real (card {k. k < min (length a) (length b) \<and> a ! k = b ! k})
           / real (max (length a) (length b)))"
proof (cases "a = [] \<or> b = []")
  case True
  then have "{k. k < min (length a) (length b) \<and> a ! k = b ! k} = {}" by auto
  with True show ?thesis by (auto simp: calculateStringSimilarity_def)
next
  case ne: False
  show ?thesis
  proof (cases "a = b")
    case True
    then have "{k. k < min (length a) (length b) \<and> a ! k = b ! k} = {..<length b}" by auto
    with True ne show ?thesis by (simp add: calculateStringSimilarity_def)
  next
    case False
    show ?thesis
    proof (cases "length a > length b")
      case True
      have "{k. k < length b \<and> k < length a \<and> b ! k = a ! k}
          = {k. k < min (length a) (length b) \<and> a ! k = b ! k}"
        by auto
      with True ne False show ?thesis
        by (simp add: calculateStringSimilarity_def jsDiv_def countMatches_eq max_def)
    next
      case le: False
      have "{k. k < length a \<and> k < length b \<and> a ! k = b ! k}
          = {k. k < min (length a) (length b) \<and> a ! k = b ! k}"
        by auto
      with le ne False show ?thesis
        by (simp add: calculateStringSimilarity_def jsDiv_def countMatches_eq max_def)
    qed
  qed
qed

lemma similarSegments_iff:
  "m \<in> set (similarSegments segments1 segments2) \<longleftrightarrow>
     (\<exists>i j. i < length segments1 \<and> j < length segments2
        \<and> jsGt (calculateStringSimilarity (Some (segments1 ! i)) (Some (segments2 ! j))) 0.7
        \<and> m = \<lparr>text1 = segments1 ! i, text2 = segments2 ! j, text1Index = i, text2Index = j,
                segSimilarity = mathRound (jsTimes
                  (calculateStringSimilarity (Some (segments1 ! i)) (Some (segments2 ! j))) 100)\<rparr>)"
  by (fastforce simp: similarSegments_def in_set_enumerate_eq Let_def split: if_splits)


lemma sort_key_Nil_iff: "sort_key f xs = [] \<longleftrightarrow> xs = []"
  by (metis length_sort length_0_conv)

lemma self_pair_recorded:
  assumes "i < length segs" "segs ! i \<noteq> []"
  shows "\<lparr>text1 = segs ! i, text2 = segs ! i, text1Index = i, text2Index = i,
           segSimilarity = JNum 100\<rparr> \<in> set (similarSegments segs segs)"
proof -
  have "calculateStringSimilarity (Some (segs ! i)) (Some (segs ! i)) = JNum 1"
    using assms by (simp add: calculateStringSimilarity_def)
  then show ?thesis
    using assms by (subst similarSegments_iff) fastforce
qed

lemma text1Segments_member:
  assumes "m \<in> set (similarSegments (splitSentences t1) (splitSentences t2))"
  shows "\<lparr>segText = text1 m, isMatch = True, percentage = segSimilarity m\<rparr>
           \<in> set (text1Segments (processAndHighlightContent t1 t2 score))"
proof -
  from assms have ne: "similarSegments (splitSentences t1) (splitSentences t2) \<noteq> []" by auto
  have "\<lparr>segText = text1 m, isMatch = True, percentage = segSimilarity m\<rparr>
      \<in> (\<lambda>m. \<lparr>segText = text1 m, isMatch = True, percentage = segSimilarity m\<rparr>)
          ` set (similarSegments (splitSentences t1) (splitSentences t2))"
    using assms by (rule imageI)
  with ne show ?thesis
    by (simp add: processAndHighlightContent_def Let_def sort_key_Nil_iff)
qed

lemma text2Segments_member:
  assumes "m \<in> set (similarSegments (splitSentences t1) (splitSentences t2))"
  shows "\<lparr>segText = text2 m, isMatch = True, percentage = segSimilarity m\<rparr>
           \<in> set (text2Segments (processAndHighlightContent t1 t2 score))"
proof -
  from assms have ne: "similarSegments (splitSentences t1) (splitSentences t2) \<noteq> []" by auto
  have "\<lparr>segText = text2 m, isMatch = True, percentage = segSimilarity m\<rparr>
      \<in> (\<lambda>m. \<lparr>segText = text2 m, isMatch = True, percentage = segSimilarity m\<rparr>)
          ` set (similarSegments (splitSentences t1) (splitSentences t2))"
    using assms by (rule imageI)
  with ne show ?thesis
    by (simp add: processAndHighlightContent_def Let_def sort_key_Nil_iff)
qed

text \<open>
  C5 (amended). For an ordered pair of units of which at least one is not empty, the
  similarity ratio is the number of positions, over the indices of the shorter unit, at
  which the two units carry the same character, divided by the length of the longer
  unit. A pair \<open>(i, j)\<close> is recorded as a match exactly when its ratio is strictly
  above 0.7. For two identical texts every non-empty unit pairs with itself at ratio 1
  and is marked matched, with percentage 100, on both sides.
\<close>

theorem matcher_ratio_and_matches:
  "(a \<noteq> [] \<or> b \<noteq> [] \<longrightarrow>
      calculateStringSimilarity (Some a) (Some b) =
        JNum (real (card {k. k < min (length a) (length b) \<and> a ! k = b ! k})
              / real (max (length a) (length b))))
   \<and> ((\<exists>m \<in> set (similarSegments segments1 segments2). text1Index m = i \<and> text2Index m = j)
        \<longleftrightarrow> i < length segments1 \<and> j < length segments2
            \<and> jsGt (calculateStringSimilarity (Some (segments1 ! i)) (Some (segments2 ! j))) 0.7)
   \<and> (n < length (splitSentences t) \<and> splitSentences t ! n \<noteq> [] \<longrightarrow>
        calculateStringSimilarity (Some (splitSentences t ! n)) (Some (splitSentences t ! n)) = JNum 1
        \<and> \<lparr>text1 = splitSentences t ! n, text2 = splitSentences t ! n, text1Index = n,
            text2Index = n, segSimilarity = JNum 100\<rparr>
             \<in> set (similarSegments (splitSentences t) (splitSentences t))
        \<and> \<lparr>segText = splitSentences t ! n, isMatch = True, percentage = JNum 100\<rparr>
             \<in> set (text1Segments (processAndHighlightContent t t score))
        \<and> \<lparr>segText = splitSentences t ! n, isMatch = True, percentage = JNum 100\<rparr>
             \<in> set (text2Segments (processAndHighlightContent t t score)))"
proof (intro conjI impI)
  assume "a \<noteq> [] \<or> b \<noteq> []"
  then show "calculateStringSimilarity (Some a) (Some b) =
        JNum (real (card {k. k < min (length a) (length b) \<and> a ! k = b ! k})
              / real (max (length a) (length b)))"
    by (rule similarity_formula)
next
  show "(\<exists>m \<in> set (similarSegments segments1 segments2). text1Index m = i \<and> text2Index m = j)
        \<longleftrightarrow> i < length segments1 \<and> j < length segments2
            \<and> jsGt (calculateStringSimilarity (Some (segments1 ! i)) (Some (segments2 ! j))) 0.7"
  proof
    assume "\<exists>m \<in> set (similarSegments segments1 segments2). text1Index m = i \<and> text2Index m = j"
    then show "i < length segments1 \<and> j < length segments2
        \<and> jsGt (calculateStringSimilarity (Some (segments1 ! i)) (Some (segments2 ! j))) 0.7"
      by (auto simp: similarSegments_iff)
  next
    assume r: "i < length segments1 \<and> j < length segments2
        \<and> jsGt (calculateStringSimilarity (Some (segments1 ! i)) (Some (segments2 ! j))) 0.7"
    let ?m = "\<lparr>text1 = segments1 ! i, text2 = segments2 ! j, text1Index = i, text2Index = j,
                segSimilarity = mathRound (jsTimes
                  (calculateStringSimilarity (Some (segments1 ! i)) (Some (segments2 ! j))) 100)\<rparr>"
    from r have "?m \<in> set (similarSegments segments1 segments2)"
      by (subst similarSegments_iff) blast
    moreover have "text1Index ?m = i \<and> text2Index ?m = j" by simp
    ultimately show "\<exists>m \<in> set (similarSegments segments1 segments2). text1Index m = i \<and> text2Index m = j"
      by blast
  qed
next
  assume h: "n < length (splitSentences t) \<and> splitSentences t ! n \<noteq> []"
  let ?u = "splitSentences t ! n"
  let ?m = "\<lparr>text1 = ?u, text2 = ?u, text1Index = n, text2Index = n, segSimilarity = JNum 100\<rparr>"
  show "calculateStringSimilarity (Some ?u) (Some ?u) = JNum 1"
    using h by (simp add: calculateStringSimilarity_def)
  show mem: "?m \<in> set (similarSegments (splitSentences t) (splitSentences t))"
    using h by (simp add: self_pair_recorded)
  show "\<lparr>segText = ?u, isMatch = True, percentage = JNum 100\<rparr>
      \<in> set (text1Segments (processAndHighlightContent t t score))"
    using text1Segments_member [OF mem, of score] by simp
  show "\<lparr>segText = ?u, isMatch = True, percentage = JNum 100\<rparr>
      \<in> set (text2Segments (processAndHighlightContent t t score))"
    using text2Segments_member [OF mem, of score] by simp
qed

lemmas eval_defs = splitSentences_def isSpace_def isTerminal_def similarSegments_def
  calculateStringSimilarity_def countMatches.simps jsDiv_def processAndHighlightContent_def Let_def

text \<open>
  C5 as stated fails on the empty unit: a text that ends in whitespace after a terminal
  mark has an empty last unit, which pairs with itself at ratio 0 and is not recorded.
\<close>

theorem matcher_empty_unit_counterexample:
  "splitSentences ''Hi. '' = [''Hi.'', '''']
   \<and> calculateStringSimilarity (Some (splitSentences ''Hi. '' ! 1)) (Some (splitSentences ''Hi. '' ! 1))
       = JNum 0
   \<and> similarSegments (splitSentences ''Hi. '') (splitSentences ''Hi. '')
       = [\<lparr>text1 = ''Hi.'', text2 = ''Hi.'', text1Index = 0, text2Index = 0, segSimilarity = JNum 100\<rparr>]"
  by (simp add: eval_defs)

text \<open>C5 (amended) at concrete units and at the text \<open>Hi. Yo.\<close>\<close>

theorem matcher_ratio_and_matches_witness:
  "calculateStringSimilarity (Some ''abcd'') (Some ''abxd'') =
     JNum (real (card {k. k < min (length ''abcd'') (length ''abxd'') \<and> ''abcd'' ! k = ''abxd'' ! k})
           / real (max (length ''abcd'') (length ''abxd'')))
   \<and> (\<exists>m \<in> set (similarSegments [''abcd''] [''abxd'']). text1Index m = 0 \<and> text2Index m = 0)
   \<and> \<lparr>segText = ''Yo.'', isMatch = True, percentage = JNum 100\<rparr>
        \<in> set (text1Segments (processAndHighlightContent ''Hi. Yo.'' ''Hi. Yo.'' (JNum 100)))
   \<and> \<lparr>segText = ''Yo.'', isMatch = True, percentage = JNum 100\<rparr>
        \<in> set (text2Segments (processAndHighlightContent ''Hi. Yo.'' ''Hi. Yo.'' (JNum 100)))"
proof -
  have units: "splitSentences ''Hi. Yo.'' = [''Hi.'', ''Yo.'']"
    by (simp add: splitSentences_def isSpace_def isTerminal_def)
  have above: "jsGt (calculateStringSimilarity (Some ''abcd'') (Some ''abxd'')) 0.7"
    by (simp add: calculateStringSimilarity_def countMatches.simps jsDiv_def)
  show ?thesis
    using matcher_ratio_and_matches [of "''abcd''" "''abxd''" "[''abcd'']" "[''abxd'']" 0 0 1
        "''Hi. Yo.''" "JNum 100"] units above
    by simp
qed

lemma no_pair_no_segments:
  assumes "\<forall>i < length segments1. \<forall>j < length segments2.
     \<not> jsGt (calculateStringSimilarity (Some (segments1 ! i)) (Some (segments2 ! j))) 0.7"
  shows "similarSegments segments1 segments2 = []"
proof (rule ccontr)
  assume "similarSegments segments1 segments2 \<noteq> []"
  then obtain m where "m \<in> set (similarSegments segments1 segments2)"
    by (meson last_in_set)
  with assms show False by (auto simp: similarSegments_iff)
qed

text \<open>
  C6. When no ordered pair of sentence units scores above 0.7 and the aggregate score
  (a similarity percentage, so not negative) is not zero, the matcher emits exactly one
  segment per side: the full input text, marked as a match, carrying the aggregate score.
\<close>

theorem no_match_emits_full_texts:
  assumes "\<forall>i < length (splitSentences t1). \<forall>j < length (splitSentences t2).
     \<not> jsGt (calculateStringSimilarity (Some (splitSentences t1 ! i))
                                         (Some (splitSentences t2 ! j))) 0.7"
    and "s \<noteq> 0" and "0 \<le> s"
  shows "processAndHighlightContent t1 t2 (JNum s) =
      \<lparr>text1Segments = [\<lparr>segText = t1, isMatch = True, percentage = JNum s\<rparr>],
       text2Segments = [\<lparr>segText = t2, isMatch = True, percentage = JNum s\<rparr>]\<rparr>"
proof -
  have "similarSegments (splitSentences t1) (splitSentences t2) = []"
    using assms(1) by (rule no_pair_no_segments)
  moreover have "jsGt (JNum s) 0" using assms(2,3) by simp
  ultimately show ?thesis
    by (simp add: processAndHighlightContent_def)
qed

text \<open>C6 at the texts \<open>abc\<close> and \<open>xyz\<close> with aggregate score 30.\<close>

theorem no_match_emits_full_texts_witness:
  "processAndHighlightContent ''abc'' ''xyz'' (JNum 30) =
      \<lparr>text1Segments = [\<lparr>segText = ''abc'', isMatch = True, percentage = JNum 30\<rparr>],
       text2Segments = [\<lparr>segText = ''xyz'', isMatch = True, percentage = JNum 30\<rparr>]\<rparr>"
  by (rule no_match_emits_full_texts) (simp_all add: eval_defs)

section \<open>Properties of the threshold filter\<close>

text \<open>
  C2 (amended). For every list of results and every threshold, the filter keeps, in
  order, exactly the rows whose first-match score is at least the threshold: the first
  of \<open>web_similarity_score\<close>, \<open>similarity_score\<close>, \<open>similarity\<close> that is truthy
  (a number other than 0), or 0 when none is. Without a results array nothing is shown.
\<close>

theorem filterResults_first_match:
  "filterResults t (Some rs) = filter (\<lambda>r. jsGe (firstMatchScore r) t) rs
   \<and> (r \<in> set (filterResults t (Some rs)) \<longleftrightarrow> r \<in> set rs \<and> jsGe (firstMatchScore r) t)
   \<and> filterResults t None = []"
proof -
  have eq: "jsOr (jsOr (jsOr a b) c) (JNum 0) =
      (case filter truthy [a, b, c] of [] \<Rightarrow> JNum 0 | v # _ \<Rightarrow> v)" for a b c
    by (simp add: jsOr_def)
  have "filterResults t (Some rs) = filter (\<lambda>r. jsGe (firstMatchScore r) t) rs"
    by (simp add: filterResults_def firstMatchScore_def eq Let_def)
  then show ?thesis by (simp add: filterResults_def)
qed

text \<open>
  C2 as stated fails where two fields disagree: with \<open>web_similarity_score = 10\<close> and
  \<open>similarity_score = 90\<close> the maximum is 90, above the threshold 50, but the row is
  filtered by the first field and is not displayed.
\<close>

theorem filterResults_max_counterexample:
  "maxScore \<lparr>web_similarity_score = JNum 10, similarity_score = JNum 90, similarity = JNum 90\<rparr> \<ge> 50
   \<and> filterResults 50 (Some [\<lparr>web_similarity_score = JNum 10, similarity_score = JNum 90,
                               similarity = JNum 90\<rparr>]) = []"
  by (simp add: maxScore_def filterResults_def jsOr_def)

text \<open>C2 (amended) at a row without \<open>web_similarity_score\<close> and threshold 50.\<close>

theorem filterResults_first_match_witness:
  "\<lparr>web_similarity_score = JUndefined, similarity_score = JNum 90, similarity = JNum 20\<rparr>
     \<in> set (filterResults 50 (Some [\<lparr>web_similarity_score = JUndefined, similarity_score = JNum 90,
                                     similarity = JNum 20\<rparr>]))"
proof -
  let ?r = "\<lparr>web_similarity_score = JUndefined, similarity_score = JNum 90, similarity = JNum 20\<rparr>"
  have "?r \<in> set [?r] \<and> jsGe (firstMatchScore ?r) 50"
    by (simp add: firstMatchScore_def)
  with filterResults_first_match [of 50 "[?r]" ?r] show ?thesis by blast
qed


section \<open>Properties of grading\<close>

text \<open>
  C7 (amended). For every grade text and feedback text entered (neither prompt
  cancelled), the grade is rejected client-side, that is the validation message is shown
  and no request is sent, if and only if the integer that \<open>parseInt\<close> reads from the
  grade text is NaN, below 0 or above 100. Otherwise exactly one grade request is sent,
  carrying the parsed integer.
\<close>

theorem grade_rejected_iff_parsed_invalid:
  "(rejectedClientSide v (gradeButtonClick (Some g) (Some fb) postOk sub v)
      \<longleftrightarrow> (case parseInt g of None \<Rightarrow> True | Some n \<Rightarrow> n < 0 \<or> n > 100))
   \<and> (\<forall>n. parseInt g = Some n \<and> 0 \<le> n \<and> n \<le> 100 \<longrightarrow>
         requests (gradeButtonClick (Some g) (Some fb) postOk sub v)
           = requests v @ [PostGrade (subId sub) n fb])"
proof (cases "parseInt g")
  case None
  then show ?thesis
    by (simp add: gradeButtonClick_def rejectedClientSide_def)
next
  case (Some n)
  show ?thesis
  proof (cases "n < 0 \<or> n > 100")
    case True
    with Some show ?thesis
      by (auto simp: gradeButtonClick_def rejectedClientSide_def)
  next
    case False
    with Some show ?thesis
      by (auto simp: gradeButtonClick_def rejectedClientSide_def handleGradeSubmission_def Let_def)
  qed
qed

text \<open>The definitions a concrete parse unfolds.\<close>

lemmas parse_defs = parseInt_def parseFloat_def isSpace_def isDigit_def isRadixDigit_def
  digitValue_def radixValue_def

text \<open>
  C7 as stated fails on the entered text \<open>100.5\<close>: the number entered is above 100,
  yet the grade is not rejected; it is sent to the backend as 100 and the list is patched.
  It also fails on the grade \<open>500\<close> when the feedback prompt is cancelled: the handler
  returns before it validates, and no message is shown.
\<close>

theorem grade_decimal_counterexample:
  "parseFloat ''100.5'' = JNum 100.5
   \<and> jsGt (parseFloat ''100.5'') 100
   \<and> gradeButtonClick (Some ''100.5'') (Some ''ok'') True
        \<lparr>subId = 1, grade = JUndefined, feedback = None, status = ''submitted''\<rparr>
        \<lparr>requests = [],
         submissions = [\<lparr>subId = 1, grade = JUndefined, feedback = None, status = ''submitted''\<rparr>],
         alerts = []\<rparr>
      = \<lparr>requests = [PostGrade 1 100 ''ok''],
         submissions = [\<lparr>subId = 1, grade = JNum 100, feedback = Some ''ok'', status = ''graded''\<rparr>],
         alerts = []\<rparr>
   \<and> parseInt ''500'' = Some 500
   \<and> alerts (gradeButtonClick (Some ''500'') None True
        \<lparr>subId = 1, grade = JUndefined, feedback = None, status = ''submitted''\<rparr>
        \<lparr>requests = [],
         submissions = [\<lparr>subId = 1, grade = JUndefined, feedback = None, status = ''submitted''\<rparr>],
         alerts = []\<rparr>) = []"
  by (simp add: parse_defs gradeButtonClick_def handleGradeSubmission_def)

text \<open>C7 (amended) at the entered grades \<open>101\<close> (rejected) and \<open>85\<close> (sent).\<close>

theorem grade_rejected_iff_parsed_invalid_witness:
  "rejectedClientSide \<lparr>requests = [], submissions = [], alerts = []\<rparr>
     (gradeButtonClick (Some ''101'') (Some ''ok'') True
        \<lparr>subId = 1, grade = JUndefined, feedback = None, status = ''submitted''\<rparr>
        \<lparr>requests = [], submissions = [], alerts = []\<rparr>)
   \<and> requests (gradeButtonClick (Some ''85'') (Some ''ok'') True
        \<lparr>subId = 1, grade = JUndefined, feedback = None, status = ''submitted''\<rparr>
        \<lparr>requests = [], submissions = [], alerts = []\<rparr>) = [PostGrade 1 85 ''ok'']"
proof -
  have p: "parseInt ''101'' = Some 101" "parseInt ''85'' = Some 85"
    by (simp_all add: parse_defs)
  let ?sub = "\<lparr>subId = 1, grade = JUndefined, feedback = None, status = ''submitted''\<rparr>"
  let ?v = "\<lparr>requests = [], submissions = [], alerts = []\<rparr> :: unit lecturerView"
  show ?thesis
    using grade_rejected_iff_parsed_invalid [of ?v "''101''" "''ok''" True ?sub]
      grade_rejected_iff_parsed_invalid [of ?v "''85''" "''ok''" True ?sub] p
    by simp
qed

text \<open>
  C10. After a successful grade call for submission id \<open>s\<close>, the list has the same
  length and the same ids in the same order; an entry whose id is \<open>s\<close> has its grade,
  feedback and status set (status \<open>graded\<close>) and keeps every other field, and every
  other entry is unchanged.
\<close>

theorem grade_patch_frame:
  "length (submissions (handleGradeSubmission True s g fb v)) = length (submissions v)
   \<and> map subId (submissions (handleGradeSubmission True s g fb v)) = map subId (submissions v)
   \<and> (\<forall>i < length (submissions v).
        submissions (handleGradeSubmission True s g fb v) ! i =
          (if subId (submissions v ! i) = s
           then (submissions v ! i)\<lparr>grade := JNum (of_int g), feedback := Some fb, status := ''graded''\<rparr>
           else submissions v ! i))"
  by (simp add: handleGradeSubmission_def Let_def comp_def)

text \<open>C10 at a list of two submissions, grading the second.\<close>

theorem grade_patch_frame_witness:
  "submissions (handleGradeSubmission True 2 90 ''good''
      \<lparr>requests = [],
       submissions = [\<lparr>subId = 1, grade = JUndefined, feedback = None, status = ''submitted''\<rparr>,
                      \<lparr>subId = 2, grade = JUndefined, feedback = None, status = ''submitted''\<rparr>],
       alerts = []\<rparr>) ! 0
     = \<lparr>subId = 1, grade = JUndefined, feedback = None, status = ''submitted''\<rparr>
   \<and> submissions (handleGradeSubmission True 2 90 ''good''
      \<lparr>requests = [],
       submissions = [\<lparr>subId = 1, grade = JUndefined, feedback = None, status = ''submitted''\<rparr>,
                      \<lparr>subId = 2, grade = JUndefined, feedback = None, status = ''submitted''\<rparr>],
       alerts = []\<rparr>) ! 1
     = \<lparr>subId = 2, grade = JNum 90, feedback = Some ''good'', status = ''graded''\<rparr>"
proof -
  let ?v = "\<lparr>requests = [],
       submissions = [\<lparr>subId = 1, grade = JUndefined, feedback = None, status = ''submitted''\<rparr>,
                      \<lparr>subId = 2, grade = JUndefined, feedback = None, status = ''submitted''\<rparr>],
       alerts = []\<rparr> :: unit lecturerView"
  have every: "\<forall>i < length (submissions ?v).
        submissions (handleGradeSubmission True 2 90 ''good'' ?v) ! i =
          (if subId (submissions ?v ! i) = 2
           then (submissions ?v ! i)\<lparr>grade := JNum (of_int 90), feedback := Some ''good'',
                                       status := ''graded''\<rparr>
           else submissions ?v ! i)"
    using grade_patch_frame [of 2 90 "''good''" ?v] by blast
  from every [rule_format, of 0] every [rule_format, of 1] show ?thesis by simp
qed


section \<open>Properties of the student submission view\<close>

subsection \<open>The pattern and the number it captures\<close>

lemma matchPattern_skip:
  assumes "\<forall>k < length pre. matchAt (drop k (pre @ rest)) = None"
  shows "matchPattern (pre @ rest) = matchPattern rest"
  using assms
proof (induction pre)
  case Nil
  then show ?case by simp
next
  case (Cons c pre)
  have here: "matchAt ((c # pre) @ rest) = None"
    using Cons.prems [rule_format, of 0] by simp
  have "\<forall>k < length pre. matchAt (drop k (pre @ rest)) = None"
  proof (intro allI impI)
    fix k assume "k < length pre"
    then show "matchAt (drop k (pre @ rest)) = None"
      using Cons.prems [rule_format, of "Suc k"] by simp
  qed
  then have "matchPattern (pre @ rest) = matchPattern rest" by (rule Cons.IH)
  with here show ?case by simp
qed

lemma matchAt_sample: "matchAt (''Calculated similarity: 42.5%'' @ post) = Some ''42.5''"
  by (simp add: matchAt_def isDigit_def)

lemma matchPattern_sample:
  assumes "\<forall>k < length pre. matchAt (drop k (pre @ ''Calculated similarity: 42.5%'' @ post)) = None"
  shows "matchPattern (pre @ ''Calculated similarity: 42.5%'' @ post) = Some ''42.5''"
proof -
  have "matchPattern (''Calculated similarity: 42.5%'' @ post) = Some ''42.5''"
    using matchAt_sample [of post] by simp
  with matchPattern_skip [OF assms] show ?thesis by simp
qed

lemma parseFloat_sample: "parseFloat ''42.5'' = JNum 42.5"
  by (simp add: parseFloat_def isSpace_def isDigit_def radixValue_def digitValue_def)


lemma digit_not_special:
  assumes "isDigit c"
  shows "\<not> isSpace c" "c \<noteq> CHR ''-''" "c \<noteq> CHR ''+''" "c \<noteq> CHR ''.''" "c \<noteq> CHR ''%''"
  using assms by (auto simp: isDigit_def isSpace_def)

lemma takeWhile_run:
  assumes "\<forall>c \<in> set W. P c" "\<not> P x"
  shows "takeWhile P (W @ x # r) = W" "dropWhile P (W @ x # r) = x # r"
  using assms by (simp_all add: takeWhile_append2 dropWhile_append2)

lemma matchAt_decimal:
  assumes "W \<noteq> []" "F \<noteq> []" "\<forall>c \<in> set W. isDigit c" "\<forall>c \<in> set F. isDigit c"
  shows "matchAt (''Calculated similarity: '' @ W @ ''.'' @ F @ ''%'' @ post) = Some (W @ ''.'' @ F)"
proof -
  have nd: "\<not> isDigit CHR ''.''" "\<not> isDigit CHR ''%''" by (simp_all add: isDigit_def)
  have strip: "stripPrefix ''Calculated similarity: ''
      (''Calculated similarity: '' @ W @ ''.'' @ F @ ''%'' @ post) = Some (W @ CHR ''.'' # F @ CHR ''%'' # post)"
    by simp
  show ?thesis
    unfolding matchAt_def strip
    using assms(1,2)
    by (simp add: takeWhile_run [OF assms(3) nd(1)] takeWhile_run [OF assms(4) nd(2)] Let_def)
qed

lemma parseFloat_decimal:
  assumes "W \<noteq> []" "\<forall>c \<in> set W. isDigit c" "\<forall>c \<in> set F. isDigit c"
  shows "parseFloat (W @ ''.'' @ F) =
     JNum (real (radixValue 10 W) + real (radixValue 10 F) / 10 ^ length F)"
proof -
  from assms(1) obtain w W' where W: "W = w # W'" by (cases W) auto
  with assms(2) have w: "isDigit w" by simp
  have nd: "\<not> isDigit CHR ''.''" by (simp add: isDigit_def)
  have skip: "dropWhile isSpace (W @ ''.'' @ F) = W @ CHR ''.'' # F"
    using W digit_not_special(1) [OF w] by simp
  have run: "takeWhile isDigit (W @ CHR ''.'' # F) = W" "dropWhile isDigit (W @ CHR ''.'' # F) = CHR ''.'' # F"
    using takeWhile_run [OF assms(2) nd] by simp_all
  have frac: "takeWhile isDigit F = F"
    using assms(3) by (simp add: takeWhile_eq_all_conv)
  have first: "W @ CHR ''.'' # F = w # (W' @ CHR ''.'' # F)" using W by simp
  show ?thesis
    unfolding parseFloat_def skip
    using assms(1) digit_not_special(2,3) [OF w]
    apply (simp only: first list.case if_False prod.case Let_def)
    apply (simp only: first [symmetric] run list.case if_True frac)
    apply simp
    done
qed


lemma no_capital_no_match:
  assumes "CHR ''C'' \<notin> set pre"
  shows "\<forall>k < length pre. matchAt (drop k (pre @ rest)) = None"
proof (intro allI impI)
  fix k assume k: "k < length pre"
  then have "drop k (pre @ rest) = pre ! k # drop (Suc k) (pre @ rest)"
    by (simp add: Cons_nth_drop_Suc nth_append)
  moreover have "pre ! k \<noteq> CHR ''C''" using assms k by (metis nth_mem)
  ultimately show "matchAt (drop k (pre @ rest)) = None"
    by (simp add: matchAt_def)
qed

subsection \<open>Score resolution\<close>

lemma resolveScore_summary:
  assumes "ws_web_similarity_score d = JUndefined" "ws_similarity_score d = JUndefined"
    and "ws_analysis_summary d = Some (pre @ ''Calculated similarity: '' @ W @ ''.'' @ F @ ''%'' @ post)"
    and "W \<noteq> []" "F \<noteq> []" "\<forall>c \<in> set W. isDigit c" "\<forall>c \<in> set F. isDigit c"
    and "\<forall>k < length pre.
           matchAt (drop k (pre @ ''Calculated similarity: '' @ W @ ''.'' @ F @ ''%'' @ post)) = None"
  shows "resolveScore d = JNum (real (radixValue 10 W) + real (radixValue 10 F) / 10 ^ length F)"
proof -
  let ?rest = "''Calculated similarity: '' @ W @ ''.'' @ F @ ''%'' @ post"
  have at: "matchAt ?rest = Some (W @ ''.'' @ F)"
    using assms(4-7) by (rule matchAt_decimal)
  have "matchPattern ?rest = Some (W @ ''.'' @ F)"
    using at by simp
  then have found: "matchPattern (pre @ ?rest) = Some (W @ ''.'' @ F)"
    using matchPattern_skip [OF assms(8)] by simp
  have "parseFloat (W @ ''.'' @ F) =
      JNum (real (radixValue 10 W) + real (radixValue 10 F) / 10 ^ length F)"
    using assms(4,6,7) by (rule parseFloat_decimal)
  with found assms(1-3) show ?thesis
    by (simp add: resolveScore_def)
qed

lemma check_sets_resolved_score:
  assumes "resolveScore d = JNum x" "ws_status d = ''success''" "submitted st"
    and "submissionData st = Some sd" "truthy (submission_id sd)"
    and "\<not> (similarityScore st \<noteq> JNull \<and> truthyStr (reportUrl st))"
  shows "similarityScore (handleCheckWebSimilarity aid (Responds d) st) = JNum x"
  using assms by (auto simp: handleCheckWebSimilarity_def Let_def split: option.splits)

text \<open>
  C4 (amended). The check resolves the score with precedence: the field
  \<open>web_similarity_score\<close> when the response has it; else the field
  \<open>similarity_score\<close> when the response has it; else, from a summary whose first
  (leftmost) match of the pattern is \<open>Calculated similarity: W.F%\<close> (\<open>W\<close>, \<open>F\<close>
  non-empty digit runs), the decimal number \<open>W.F\<close>. In particular a success response
  with neither field and a summary in which \<open>Calculated similarity: 42.5%\<close> is the
  first match of the pattern resolves to exactly 42.5, and the handler stores that score.
\<close>

theorem score_resolution_precedence:
  "(ws_web_similarity_score d \<noteq> JUndefined \<longrightarrow> resolveScore d = ws_web_similarity_score d)
   \<and> (ws_web_similarity_score d = JUndefined \<and> ws_similarity_score d \<noteq> JUndefined
        \<longrightarrow> resolveScore d = ws_similarity_score d)
   \<and> (ws_web_similarity_score d = JUndefined \<and> ws_similarity_score d = JUndefined
        \<and> ws_analysis_summary d
            = Some (pre @ ''Calculated similarity: '' @ W @ ''.'' @ F @ ''%'' @ post)
        \<and> W \<noteq> [] \<and> F \<noteq> [] \<and> (\<forall>c \<in> set W. isDigit c) \<and> (\<forall>c \<in> set F. isDigit c)
        \<and> (\<forall>k < length pre. matchAt (drop k
              (pre @ ''Calculated similarity: '' @ W @ ''.'' @ F @ ''%'' @ post)) = None)
        \<longrightarrow> resolveScore d
              = JNum (real (radixValue 10 W) + real (radixValue 10 F) / 10 ^ length F))
   \<and> (ws_web_similarity_score d = JUndefined \<and> ws_similarity_score d = JUndefined
        \<and> ws_analysis_summary d = Some (pre @ ''Calculated similarity: 42.5%'' @ post)
        \<and> (\<forall>k < length pre. matchAt (drop k (pre @ ''Calculated similarity: 42.5%'' @ post)) = None)
        \<longrightarrow> resolveScore d = JNum 42.5
            \<and> (ws_status d = ''success'' \<and> submitted st \<and> submissionData st = Some sd
                 \<and> truthy (submission_id sd)
                 \<and> \<not> (similarityScore st \<noteq> JNull \<and> truthyStr (reportUrl st))
                 \<longrightarrow> similarityScore (handleCheckWebSimilarity aid (Responds d) st) = JNum 42.5))"
proof (intro conjI impI)
  assume "ws_web_similarity_score d \<noteq> JUndefined"
  then show "resolveScore d = ws_web_similarity_score d" by (simp add: resolveScore_def)
next
  assume "ws_web_similarity_score d = JUndefined \<and> ws_similarity_score d \<noteq> JUndefined"
  then show "resolveScore d = ws_similarity_score d" by (simp add: resolveScore_def)
next
  assume "ws_web_similarity_score d = JUndefined \<and> ws_similarity_score d = JUndefined
        \<and> ws_analysis_summary d
            = Some (pre @ ''Calculated similarity: '' @ W @ ''.'' @ F @ ''%'' @ post)
        \<and> W \<noteq> [] \<and> F \<noteq> [] \<and> (\<forall>c \<in> set W. isDigit c) \<and> (\<forall>c \<in> set F. isDigit c)
        \<and> (\<forall>k < length pre. matchAt (drop k
              (pre @ ''Calculated similarity: '' @ W @ ''.'' @ F @ ''%'' @ post)) = None)"
  then show "resolveScore d
              = JNum (real (radixValue 10 W) + real (radixValue 10 F) / 10 ^ length F)"
    by (intro resolveScore_summary) blast+
next
  assume h: "ws_web_similarity_score d = JUndefined \<and> ws_similarity_score d = JUndefined
        \<and> ws_analysis_summary d = Some (pre @ ''Calculated similarity: 42.5%'' @ post)
        \<and> (\<forall>k < length pre. matchAt (drop k (pre @ ''Calculated similarity: 42.5%'' @ post)) = None)"
  have "resolveScore d = JNum (real (radixValue 10 ''42'') + real (radixValue 10 ''5'') / 10 ^ length ''5'')"
    using h by (intro resolveScore_summary [where pre = pre and post = post])
               (simp_all add: isDigit_def)
  then show r: "resolveScore d = JNum 42.5"
    by (simp add: radixValue_def digitValue_def)
  assume "ws_status d = ''success'' \<and> submitted st \<and> submissionData st = Some sd
                 \<and> truthy (submission_id sd)
                 \<and> \<not> (similarityScore st \<noteq> JNull \<and> truthyStr (reportUrl st))"
  then show "similarityScore (handleCheckWebSimilarity aid (Responds d) st) = JNum 42.5"
    by (intro check_sets_resolved_score [OF r]) blast+
qed


text \<open>
  C4 as stated fails on a summary that contains the text
  \<open>Calculated similarity: 42.5%\<close> after an earlier match of the pattern:
  \<open>String.prototype.match\<close> returns the leftmost match, so the score resolved and
  stored is 10, not 42.5.
\<close>

theorem score_second_occurrence_counterexample:
  "resolveScore \<lparr>ws_status = ''success'', ws_web_similarity_score = JUndefined,
       ws_similarity_score = JUndefined,
       ws_analysis_summary =
         Some ''Calculated similarity: 10.0% (draft). Calculated similarity: 42.5% final'',
       ws_report_url = None, ws_message = None\<rparr> = JNum 10
   \<and> similarityScore (handleCheckWebSimilarity ''7''
        (Responds \<lparr>ws_status = ''success'', ws_web_similarity_score = JUndefined,
           ws_similarity_score = JUndefined,
           ws_analysis_summary =
             Some ''Calculated similarity: 10.0% (draft). Calculated similarity: 42.5% final'',
           ws_report_url = None, ws_message = None\<rparr>) sampleView) = JNum 10"
proof -
  let ?d = "\<lparr>ws_status = ''success'', ws_web_similarity_score = JUndefined,
       ws_similarity_score = JUndefined,
       ws_analysis_summary =
         Some ''Calculated similarity: 10.0% (draft). Calculated similarity: 42.5% final'',
       ws_report_url = None, ws_message = None\<rparr>"
  have found: "matchPattern
      ''Calculated similarity: 10.0% (draft). Calculated similarity: 42.5% final'' = Some ''10.0''"
    by (simp add: matchAt_def isDigit_def)
  have num: "parseFloat ''10.0'' = JNum 10"
    by (simp add: parseFloat_def isSpace_def isDigit_def radixValue_def digitValue_def)
  have r: "resolveScore ?d = JNum 10"
    using found num by (simp add: resolveScore_def)
  have "similarityScore (handleCheckWebSimilarity ''7'' (Responds ?d) sampleView) = JNum 10"
    by (rule check_sets_resolved_score [OF r, where sd = sampleRecord])
       (simp_all add: sampleView_def sampleRecord_def)
  with r show ?thesis by simp
qed

text \<open>
  C4 (amended) at a summary with text around the pattern, and at a response with both
  fields.
\<close>

theorem score_resolution_precedence_witness:
  "resolveScore \<lparr>ws_status = ''success'', ws_web_similarity_score = JUndefined,
       ws_similarity_score = JUndefined,
       ws_analysis_summary = Some ''Done. Calculated similarity: 42.5% of the text.'',
       ws_report_url = None, ws_message = None\<rparr> = JNum 42.5
   \<and> similarityScore (handleCheckWebSimilarity ''7''
        (Responds \<lparr>ws_status = ''success'', ws_web_similarity_score = JUndefined,
           ws_similarity_score = JUndefined,
           ws_analysis_summary = Some ''Done. Calculated similarity: 42.5% of the text.'',
           ws_report_url = None, ws_message = None\<rparr>) sampleView) = JNum 42.5
   \<and> resolveScore \<lparr>ws_status = ''success'', ws_web_similarity_score = JNum 81,
       ws_similarity_score = JNum 3, ws_analysis_summary = None,
       ws_report_url = None, ws_message = None\<rparr> = JNum 81"
proof -
  let ?d = "\<lparr>ws_status = ''success'', ws_web_similarity_score = JUndefined,
       ws_similarity_score = JUndefined,
       ws_analysis_summary = Some ''Done. Calculated similarity: 42.5% of the text.'',
       ws_report_url = None, ws_message = None\<rparr>"
  let ?e = "\<lparr>ws_status = ''success'', ws_web_similarity_score = JNum 81,
       ws_similarity_score = JNum 3, ws_analysis_summary = None,
       ws_report_url = None, ws_message = None\<rparr>"
  have first: "\<forall>k < length ''Done. ''.
      matchAt (drop k (''Done. '' @ ''Calculated similarity: 42.5%'' @ '' of the text.'')) = None"
    by (rule no_capital_no_match) simp
  have a: "resolveScore ?d = JNum 42.5 \<and> similarityScore (handleCheckWebSimilarity ''7'' (Responds ?d) sampleView) = JNum 42.5"
    using score_resolution_precedence [of ?d "''Done. ''" "''42''" "''5''" "'' of the text.''"
        sampleView sampleRecord "''7''"] first
    by (simp add: sampleView_def sampleRecord_def)
  have b: "resolveScore ?e = JNum 81"
    using score_resolution_precedence [of ?e] by simp
  from a b show ?thesis by simp
qed


subsection \<open>The cached check\<close>

text \<open>
  C3 (amended). For every submitted assignment with complete submission data whose
  similarity score and report URL are both cached, the check action sends no request,
  whatever the backend would answer: it only opens the snackbar that shows the cached
  score, and changes nothing else.
\<close>

theorem cached_check_makes_no_request:
  assumes "submitted st" and "submissionData st = Some sd" and "truthy (submission_id sd)"
    and "similarityScore st \<noteq> JNull" and "truthyStr (reportUrl st)"
  shows "handleCheckWebSimilarity aid response st = st\<lparr>snackbarOpen := True\<rparr>
     \<and> requests (handleCheckWebSimilarity aid response st) = requests st
     \<and> similarityScore (handleCheckWebSimilarity aid response st) = similarityScore st
     \<and> snackbarOpen (handleCheckWebSimilarity aid response st)"
  using assms by (simp add: handleCheckWebSimilarity_def)

text \<open>
  C3 as stated fails when the score is cached but no report URL is: the check queries
  the backend again.
\<close>

theorem cached_score_without_report_counterexample:
  "requests (handleCheckWebSimilarity ''7''
      (Responds \<lparr>ws_status = ''success'', ws_web_similarity_score = JNum 42,
         ws_similarity_score = JUndefined, ws_analysis_summary = None,
         ws_report_url = None, ws_message = None\<rparr>)
      (sampleView\<lparr>similarityScore := JNum 42\<rparr>))
    = [PostWebSimilarity (JNum 55)]"
  by (simp add: handleCheckWebSimilarity_def sampleView_def sampleRecord_def resolveScore_def Let_def)

text \<open>C3 (amended) at a view with score 42 and a report URL cached.\<close>

theorem cached_check_makes_no_request_witness:
  "requests (handleCheckWebSimilarity ''7'' (Rejects None)
      (sampleView\<lparr>similarityScore := JNum 42,
                   reportUrl := Some ''http://127.0.0.1:8000/reports/55.pdf''\<rparr>)) = []
   \<and> snackbarOpen (handleCheckWebSimilarity ''7'' (Rejects None)
      (sampleView\<lparr>similarityScore := JNum 42,
                   reportUrl := Some ''http://127.0.0.1:8000/reports/55.pdf''\<rparr>))"
  using cached_check_makes_no_request [of
      "sampleView\<lparr>similarityScore := JNum 42,
                   reportUrl := Some ''http://127.0.0.1:8000/reports/55.pdf''\<rparr>"
      sampleRecord "''7''" "Rejects None"]
  by (simp add: sampleView_def sampleRecord_def)

subsection \<open>Submitting without a name or a file\<close>

text \<open>
  C8. When the name is empty or no file is selected, the submit action sends no request,
  sets the validation message as the error, and changes nothing else: the submitted
  flag and local storage stay as they were, so an unsubmitted view stays unsubmitted.
\<close>

theorem submit_validation_no_request:
  assumes "name st = [] \<or> selectedFile st = None"
  shows "requests (handleSubmit aid response st) = requests st
     \<and> error (handleSubmit aid response st)
         = (if name st = [] then ''Please enter your name.''
            else ''Please upload a file before submitting.'')
     \<and> submitted (handleSubmit aid response st) = submitted st
     \<and> localStorage (handleSubmit aid response st) = localStorage st
     \<and> handleSubmit aid response st = st\<lparr>error := error (handleSubmit aid response st)\<rparr>"
  using assms by (auto simp: handleSubmit_def)

text \<open>C8 at an unsubmitted view with a name and no file.\<close>

theorem submit_validation_no_request_witness:
  "requests (handleSubmit ''7'' (Responds \<lparr>sb_status = ''success'', sb_data = Some sampleRecord,
        sb_message = None\<rparr>) (sampleView\<lparr>submitted := False, submissionData := None\<rparr>)) = []
   \<and> error (handleSubmit ''7'' (Responds \<lparr>sb_status = ''success'', sb_data = Some sampleRecord,
        sb_message = None\<rparr>) (sampleView\<lparr>submitted := False, submissionData := None\<rparr>))
       = ''Please upload a file before submitting.''
   \<and> \<not> submitted (handleSubmit ''7'' (Responds \<lparr>sb_status = ''success'', sb_data = Some sampleRecord,
        sb_message = None\<rparr>) (sampleView\<lparr>submitted := False, submissionData := None\<rparr>))"
  using submit_validation_no_request [of "sampleView\<lparr>submitted := False, submissionData := None\<rparr>"
      "''7''" "Responds \<lparr>sb_status = ''success'', sb_data = Some sampleRecord, sb_message = None\<rparr>"]
  by (simp add: sampleView_def)

subsection \<open>Removing a submission\<close>

text \<open>
  C1 (amended). For every removal of an existing submission, when the delete call
  rejects or the server answers \<open>success\<close> (whatever happens to the report deletion),
  the two local-storage keys of the assignment are cleared and the view is back in the
  unsubmitted state. When the server answers with any other status, local storage, the
  submitted flag and the submission data are left as they were.
\<close>

theorem remove_clears_local_state:
  assumes "submissionData st = Some sd" and "truthy (submission_id sd)"
  shows "(response = Rejects m \<or> (response = Responds d \<and> del_status d = ''success'') \<longrightarrow>
            localStorage (handleRemove aid response reportDeleted st) (statusKey aid) = None
          \<and> localStorage (handleRemove aid response reportDeleted st) (dataKey aid) = None
          \<and> \<not> submitted (handleRemove aid response reportDeleted st)
          \<and> submissionData (handleRemove aid response reportDeleted st) = None
          \<and> similarityScore (handleRemove aid response reportDeleted st) = JNull
          \<and> reportUrl (handleRemove aid response reportDeleted st) = None)
     \<and> (response = Responds d \<and> del_status d \<noteq> ''success'' \<longrightarrow>
            localStorage (handleRemove aid response reportDeleted st) = localStorage st
          \<and> submitted (handleRemove aid response reportDeleted st) = submitted st
          \<and> submissionData (handleRemove aid response reportDeleted st) = submissionData st)"
  using assms by (auto simp: handleRemove_def clearLocal_def Let_def)

text \<open>
  C1 as stated fails when the server answers with a non-success status: the view stays
  submitted and both local-storage entries remain.
\<close>

theorem remove_non_success_counterexample:
  "submitted (handleRemove ''7'' (Responds \<lparr>del_status = ''error'', del_message = None\<rparr>) True sampleView)
   \<and> localStorage (handleRemove ''7'' (Responds \<lparr>del_status = ''error'', del_message = None\<rparr>) True
        sampleView) (statusKey ''7'') = Some (StoredText ''submitted'')
   \<and> localStorage (handleRemove ''7'' (Responds \<lparr>del_status = ''error'', del_message = None\<rparr>) True
        sampleView) (dataKey ''7'') = Some (StoredData sampleRecord)"
  by (simp add: handleRemove_def sampleView_def sampleRecord_def statusKey_def dataKey_def Let_def)

text \<open>C1 (amended) at a rejected delete call and at a non-success answer.\<close>

theorem remove_clears_local_state_witness:
  "localStorage (handleRemove ''7'' (Rejects None) True sampleView) (statusKey ''7'') = None
   \<and> localStorage (handleRemove ''7'' (Rejects None) True sampleView) (dataKey ''7'') = None
   \<and> \<not> submitted (handleRemove ''7'' (Rejects None) True sampleView)
   \<and> submitted (handleRemove ''7'' (Responds \<lparr>del_status = ''error'', del_message = None\<rparr>) True
        sampleView) = submitted sampleView"
proof -
  have pre: "submissionData sampleView = Some sampleRecord" "truthy (submission_id sampleRecord)"
    by (simp_all add: sampleView_def sampleRecord_def)
  show ?thesis
    using remove_clears_local_state [OF pre, of "Rejects None" None
        "\<lparr>del_status = ''success'', del_message = None\<rparr>" "''7''" True]
      remove_clears_local_state [OF pre,
        of "Responds \<lparr>del_status = ''error'', del_message = None\<rparr>" None
           "\<lparr>del_status = ''error'', del_message = None\<rparr>" "''7''" True]
    by simp
qed


end
